theory Spec2Isabelle
  imports Main
begin

section \<open>The swnSQLite facade over an external database engine\<close>

text \<open>
  The source is one class, \<^verbatim>\<open>swnSQLite\<close> (src/index.mts). Every method opens a handle
  on the database file named at construction, sends one statement to the engine and
  closes the handle. The engine (the \<^verbatim>\<open>sqlite\<close> and \<^verbatim>\<open>sqlite3\<close> packages) is not part of
  the repository: it is a parameter of every definition below, and nothing is assumed
  about the meaning it gives to a statement.

  An \<^verbatim>\<open>async\<close> method is a sequence of awaited steps; a rejected promise is a thrown
  error, which ends the method at that step. The model is a state transformer that
  returns either the error or the value, together with the state reached.
  Arrays (\<^verbatim>\<open>any[]\<close>) are lists, that is, arrays without holes.
\<close>

subsection \<open>Data\<close>

datatype error = SqliteError string

text \<open>The class has one field, \<^verbatim>\<open>private dbName: string\<close>.\<close>

record swnSQLite =
  dbName :: string

text \<open>A handle is the object \<^verbatim>\<open>open\<close> returns: it is bound to the file it was opened on.\<close>

record handle =
  hid :: nat
  hfile :: string

text \<open>
  The engine, as the facade uses it: \<^verbatim>\<open>open\<close>, \<^verbatim>\<open>run\<close>, \<^verbatim>\<open>all\<close>, \<^verbatim>\<open>get\<close> and \<^verbatim>\<open>close\<close>.
  Each acts on the stored data \<open>'db\<close> of the named file and may fail. \<open>'v\<close> is the type
  of bound parameter values, \<open>'r\<close> the type of rows.
\<close>

record ('db, 'v, 'r) engine =
  e_open :: "string \<Rightarrow> 'db \<Rightarrow> (error + unit) \<times> 'db"
  e_run :: "string \<Rightarrow> string \<Rightarrow> 'v list \<Rightarrow> 'db \<Rightarrow> (error + unit) \<times> 'db"
  e_all :: "string \<Rightarrow> string \<Rightarrow> 'v list \<Rightarrow> 'db \<Rightarrow> (error + 'r list) \<times> 'db"
  e_get :: "string \<Rightarrow> string \<Rightarrow> 'v list \<Rightarrow> 'db \<Rightarrow> (error + 'r option) \<times> 'db"
  e_close :: "string \<Rightarrow> 'db \<Rightarrow> (error + unit) \<times> 'db"

text \<open>
  The state a call runs in: the facade object itself, the stored data, the handles that
  are open, and the number of handles opened so far (the identity of the next one).
\<close>

record 'db state =
  self :: swnSQLite
  disk :: 'db
  handles :: "handle list"
  next_id :: nat

type_synonym ('a, 'db) io = "'db state \<Rightarrow> (error + 'a) \<times> 'db state"

subsection \<open>Sequencing awaited steps\<close>

definition return_io :: "'a \<Rightarrow> ('a, 'db) io" where
  "return_io x = (\<lambda>s. (Inr x, s))"

text \<open>\<^verbatim>\<open>const x = await m; rest\<close>: when \<open>m\<close> throws, \<open>rest\<close> does not run.\<close>

definition await :: "('a, 'db) io \<Rightarrow> ('a \<Rightarrow> ('b, 'db) io) \<Rightarrow> ('b, 'db) io" where
  "await m f = (\<lambda>s. case m s of
      (Inl err, s') \<Rightarrow> (Inl err, s')
    | (Inr x, s') \<Rightarrow> f x s')"

subsection \<open>The engine's operations on handles\<close>

text \<open>\<^verbatim>\<open>open({ filename, driver })\<close>: on success a new handle is open.\<close>

definition sqlite_open :: "('db, 'v, 'r) engine \<Rightarrow> string \<Rightarrow> (handle, 'db) io" where
  "sqlite_open e filename = (\<lambda>s. case e_open e filename (disk s) of
      (Inl err, d) \<Rightarrow> (Inl err, s\<lparr>disk := d\<rparr>)
    | (Inr _, d) \<Rightarrow>
        (let h = \<lparr>hid = next_id s, hfile = filename\<rparr>
         in (Inr h, s\<lparr>disk := d, handles := h # handles s, next_id := Suc (next_id s)\<rparr>)))"

definition db_run :: "('db, 'v, 'r) engine \<Rightarrow> handle \<Rightarrow> string \<Rightarrow> 'v list \<Rightarrow> (unit, 'db) io" where
  "db_run e h query params = (\<lambda>s. case e_run e (hfile h) query params (disk s) of
      (res, d) \<Rightarrow> (res, s\<lparr>disk := d\<rparr>))"

definition db_all :: "('db, 'v, 'r) engine \<Rightarrow> handle \<Rightarrow> string \<Rightarrow> 'v list \<Rightarrow> ('r list, 'db) io" where
  "db_all e h query params = (\<lambda>s. case e_all e (hfile h) query params (disk s) of
      (res, d) \<Rightarrow> (res, s\<lparr>disk := d\<rparr>))"

definition db_get :: "('db, 'v, 'r) engine \<Rightarrow> handle \<Rightarrow> string \<Rightarrow> 'v list \<Rightarrow> ('r option, 'db) io" where
  "db_get e h query params = (\<lambda>s. case e_get e (hfile h) query params (disk s) of
      (res, d) \<Rightarrow> (res, s\<lparr>disk := d\<rparr>))"

text \<open>\<^verbatim>\<open>db.close()\<close>: on success the handle is no longer open; on failure it still is.\<close>

definition db_close :: "('db, 'v, 'r) engine \<Rightarrow> handle \<Rightarrow> (unit, 'db) io" where
  "db_close e h = (\<lambda>s. case e_close e (hfile h) (disk s) of
      (Inl err, d) \<Rightarrow> (Inl err, s\<lparr>disk := d\<rparr>)
    | (Inr _, d) \<Rightarrow> (Inr (), s\<lparr>disk := d, handles := removeAll h (handles s)\<rparr>))"

subsection \<open>The class\<close>

definition constructor :: "string \<Rightarrow> swnSQLite" where
  "constructor name = \<lparr>dbName = name\<rparr>"

text \<open>\<^verbatim>\<open>this.dbName\<close>, read in the state the step runs in.\<close>

definition this_open :: "('db, 'v, 'r) engine \<Rightarrow> (handle, 'db) io" where
  "this_open e = (\<lambda>s. sqlite_open e (dbName (self s)) s)"

definition executeQuery :: "('db, 'v, 'r) engine \<Rightarrow> string \<Rightarrow> 'v list \<Rightarrow> (unit, 'db) io" where
  "executeQuery e query params =
     await (this_open e) (\<lambda>db.
     await (db_run e db query params) (\<lambda>_.
     db_close e db))"

definition fetchAll :: "('db, 'v, 'r) engine \<Rightarrow> string \<Rightarrow> 'v list \<Rightarrow> ('r list, 'db) io" where
  "fetchAll e query params =
     await (this_open e) (\<lambda>db.
     await (db_all e db query params) (\<lambda>rows.
     await (db_close e db) (\<lambda>_.
     return_io rows)))"

definition fetchOne :: "('db, 'v, 'r) engine \<Rightarrow> string \<Rightarrow> 'v list \<Rightarrow> ('r option, 'db) io" where
  "fetchOne e query params =
     await (this_open e) (\<lambda>db.
     await (db_get e db query params) (\<lambda>row.
     await (db_close e db) (\<lambda>_.
     return_io row)))"

definition createTable :: "('db, 'v, 'r) engine \<Rightarrow> string \<Rightarrow> string \<Rightarrow> (unit, 'db) io" where
  "createTable e tableName columns =
     (let query = ''CREATE TABLE IF NOT EXISTS '' @ tableName @ '' ('' @ columns @ '')''
      in executeQuery e query [])"

text \<open>\<^verbatim>\<open>Array.prototype.join\<close> on an array of strings.\<close>

fun join :: "string list \<Rightarrow> string \<Rightarrow> string" where
  "join [] sep = []"
| "join [x] sep = x"
| "join (x # y # ys) sep = x @ sep @ join (y # ys) sep"

text \<open>The local constants \<^verbatim>\<open>placeholders\<close> and \<^verbatim>\<open>query\<close> of \<^verbatim>\<open>insert\<close>, as functions of its arguments.\<close>

definition placeholders :: "'v list \<Rightarrow> string" where
  "placeholders values = join (map (\<lambda>_. ''?'') values) '', ''"

definition insert_query :: "string \<Rightarrow> string \<Rightarrow> 'v list \<Rightarrow> string" where
  "insert_query tableName columns values =
     ''INSERT INTO '' @ tableName @ '' ('' @ columns @ '') VALUES ('' @ placeholders values @ '')''"

text \<open>The method \<^verbatim>\<open>insert\<close>.\<close>

definition insert_row :: "('db, 'v, 'r) engine \<Rightarrow> string \<Rightarrow> string \<Rightarrow> 'v list \<Rightarrow> (unit, 'db) io" where
  "insert_row e tableName columns values =
     (let query = insert_query tableName columns values
      in executeQuery e query values)"

definition update ::
  "('db, 'v, 'r) engine \<Rightarrow> string \<Rightarrow> string \<Rightarrow> string \<Rightarrow> 'v list \<Rightarrow> (unit, 'db) io" where
  "update e tableName setValues condition params =
     (let query = ''UPDATE '' @ tableName @ '' SET '' @ setValues @ '' WHERE '' @ condition
      in executeQuery e query params)"

definition delete :: "('db, 'v, 'r) engine \<Rightarrow> string \<Rightarrow> string \<Rightarrow> 'v list \<Rightarrow> (unit, 'db) io" where
  "delete e tableName condition params =
     (let query = ''DELETE FROM '' @ tableName @ '' WHERE '' @ condition
      in executeQuery e query params)"

definition selectAll :: "('db, 'v, 'r) engine \<Rightarrow> string \<Rightarrow> ('r list, 'db) io" where
  "selectAll e tableName =
     (let query = ''SELECT * FROM '' @ tableName
      in fetchAll e query [])"

definition selectWhere :: "('db, 'v, 'r) engine \<Rightarrow> string \<Rightarrow> string \<Rightarrow> 'v list \<Rightarrow> ('r list, 'db) io" where
  "selectWhere e tableName condition params =
     (let query = ''SELECT * FROM '' @ tableName @ '' WHERE '' @ condition
      in fetchAll e query params)"

definition selectAllOrdered :: "('db, 'v, 'r) engine \<Rightarrow> string \<Rightarrow> string \<Rightarrow> ('r list, 'db) io" where
  "selectAllOrdered e tableName orderBy =
     (let query = ''SELECT * FROM '' @ tableName @ '' ORDER BY '' @ orderBy
      in fetchAll e query [])"

subsection \<open>Calls on an instance\<close>

text \<open>
  The ten public methods, as values, so that a property can speak of every operation and
  of a sequence of calls on one instance.
\<close>

datatype 'v call =
    ExecuteQuery string "'v list"
  | FetchAll string "'v list"
  | FetchOne string "'v list"
  | CreateTable string string
  | Insert string string "'v list"
  | Update string string string "'v list"
  | Delete string string "'v list"
  | SelectAll string
  | SelectWhere string string "'v list"
  | SelectAllOrdered string string

datatype 'r reply = Nothing | Rows "'r list" | Row "'r option"

definition reply_of :: "('a \<Rightarrow> 'r reply) \<Rightarrow> ('a, 'db) io \<Rightarrow> ('r reply, 'db) io" where
  "reply_of f m = await m (\<lambda>x. return_io (f x))"

fun perform :: "('db, 'v, 'r) engine \<Rightarrow> 'v call \<Rightarrow> ('r reply, 'db) io" where
  "perform e (ExecuteQuery q p) = reply_of (\<lambda>_. Nothing) (executeQuery e q p)"
| "perform e (FetchAll q p) = reply_of Rows (fetchAll e q p)"
| "perform e (FetchOne q p) = reply_of Row (fetchOne e q p)"
| "perform e (CreateTable t c) = reply_of (\<lambda>_. Nothing) (createTable e t c)"
| "perform e (Insert t c vs) = reply_of (\<lambda>_. Nothing) (insert_row e t c vs)"
| "perform e (Update t sv c p) = reply_of (\<lambda>_. Nothing) (update e t sv c p)"
| "perform e (Delete t c p) = reply_of (\<lambda>_. Nothing) (delete e t c p)"
| "perform e (SelectAll t) = reply_of Rows (selectAll e t)"
| "perform e (SelectWhere t c p) = reply_of Rows (selectWhere e t c p)"
| "perform e (SelectAllOrdered t ob) = reply_of Rows (selectAllOrdered e t ob)"

text \<open>A sequence of calls, each awaited before the next; a failed call does not stop the caller here.\<close>

fun perform_all :: "('db, 'v, 'r) engine \<Rightarrow> 'v call list \<Rightarrow> 'db state \<Rightarrow> 'db state" where
  "perform_all e [] s = s"
| "perform_all e (c # cs) s = perform_all e cs (snd (perform e c s))"

text \<open>The handle a call opens in state \<open>s\<close>.\<close>

definition opened :: "'db state \<Rightarrow> handle" where
  "opened s = \<lparr>hid = next_id s, hfile = dbName (self s)\<rparr>"

subsection \<open>What one call asks of the engine\<close>


subsection \<open>A small engine to evaluate the facade on\<close>

text \<open>
  One table of rows of integers. A statement whose text ends in an empty parenthesised
  list is rejected as a syntax error, and one whose number of \<open>?\<close> marks is not the
  number of bound values is rejected too; any other statement run with parameters \<open>p\<close>
  stores \<open>p\<close> as a row, and a query returns the stored rows.
\<close>

definition ends_in_empty_list :: "string \<Rightarrow> bool" where
  "ends_in_empty_list q = (take 2 (rev q) = '')('')"

definition demo_check :: "string \<Rightarrow> int list \<Rightarrow> error option" where
  "demo_check q p =
     (if ends_in_empty_list q then Some (SqliteError ''syntax error'')
      else if count_list q CHR ''?'' \<noteq> length p then Some (SqliteError ''wrong number of values'')
      else None)"

definition demo_engine :: "(int list list, int, int list) engine" where
  "demo_engine = \<lparr>
     e_open = (\<lambda>f d. (Inr (), d)),
     e_run = (\<lambda>f q p d. case demo_check q p of
                Some err \<Rightarrow> (Inl err, d) | None \<Rightarrow> (Inr (), d @ [p])),
     e_all = (\<lambda>f q p d. case demo_check q p of
                Some err \<Rightarrow> (Inl err, d) | None \<Rightarrow> (Inr d, d)),
     e_get = (\<lambda>f q p d. case demo_check q p of
                Some err \<Rightarrow> (Inl err, d)
              | None \<Rightarrow> (Inr (case d of [] \<Rightarrow> None | r # _ \<Rightarrow> Some r), d)),
     e_close = (\<lambda>f d. (Inr (), d)) \<rparr>"

definition demo_state :: "int list list state" where
  "demo_state = \<lparr>self = constructor ''demo.db'', disk = [], handles = [], next_id = 0\<rparr>"

subsection \<open>A second small engine\<close>

text \<open>
  The same table of rows, with a statement check nearer to SQLite in two respects: text
  from \<open>--\<close> on is a comment and is not part of the statement, and a statement with more
  \<open>?\<close> marks than bound values is accepted (the values that are missing are NULL); only
  more values than marks are rejected.
\<close>

fun strip_comment :: "string \<Rightarrow> string" where
  "strip_comment [] = []"
| "strip_comment [x] = [x]"
| "strip_comment (x # y # zs) =
     (if x = CHR ''-'' \<and> y = CHR ''-'' then [] else x # strip_comment (y # zs))"

definition lenient_check :: "string \<Rightarrow> int list \<Rightarrow> error option" where
  "lenient_check q p =
     (if ends_in_empty_list (strip_comment q) then Some (SqliteError ''syntax error'')
      else if count_list (strip_comment q) CHR ''?'' < length p
        then Some (SqliteError ''column index out of range'')
      else None)"

definition lenient_engine :: "(int list list, int, int list) engine" where
  "lenient_engine = \<lparr>
     e_open = (\<lambda>f d. (Inr (), d)),
     e_run = (\<lambda>f q p d. case lenient_check q p of
                Some err \<Rightarrow> (Inl err, d) | None \<Rightarrow> (Inr (), d @ [p])),
     e_all = (\<lambda>f q p d. case lenient_check q p of
                Some err \<Rightarrow> (Inl err, d) | None \<Rightarrow> (Inr d, d)),
     e_get = (\<lambda>f q p d. case lenient_check q p of
                Some err \<Rightarrow> (Inl err, d)
              | None \<Rightarrow> (Inr (case d of [] \<Rightarrow> None | r # _ \<Rightarrow> Some r), d)),
     e_close = (\<lambda>f d. (Inr (), d)) \<rparr>"

section \<open>Properties\<close>

subsection \<open>Unfolding one call\<close>

lemmas io_defs = await_def return_io_def this_open_def sqlite_open_def db_run_def db_all_def
  db_get_def db_close_def


lemma executeQuery_handles:
  "(fst (executeQuery e q p s) = Inr v \<longrightarrow>
      handles (snd (executeQuery e q p s)) = removeAll (opened s) (handles s))
   \<and> (fst (e_open e (dbName (self s)) (disk s)) = Inr u \<longrightarrow> fst (executeQuery e q p s) = Inl err \<longrightarrow>
      handles (snd (executeQuery e q p s)) = opened s # handles s)
   \<and> (fst (e_open e (dbName (self s)) (disk s)) = Inl err \<longrightarrow>
      handles (snd (executeQuery e q p s)) = handles s)"
  by (auto simp: executeQuery_def opened_def io_defs Let_def split: prod.splits sum.splits)

lemma fetchAll_handles:
  "(fst (fetchAll e q p s) = Inr v \<longrightarrow>
      handles (snd (fetchAll e q p s)) = removeAll (opened s) (handles s))
   \<and> (fst (e_open e (dbName (self s)) (disk s)) = Inr u \<longrightarrow> fst (fetchAll e q p s) = Inl err \<longrightarrow>
      handles (snd (fetchAll e q p s)) = opened s # handles s)
   \<and> (fst (e_open e (dbName (self s)) (disk s)) = Inl err \<longrightarrow>
      handles (snd (fetchAll e q p s)) = handles s)"
  by (auto simp: fetchAll_def opened_def io_defs Let_def split: prod.splits sum.splits)

lemma fetchOne_handles:
  "(fst (fetchOne e q p s) = Inr v \<longrightarrow>
      handles (snd (fetchOne e q p s)) = removeAll (opened s) (handles s))
   \<and> (fst (e_open e (dbName (self s)) (disk s)) = Inr u \<longrightarrow> fst (fetchOne e q p s) = Inl err \<longrightarrow>
      handles (snd (fetchOne e q p s)) = opened s # handles s)
   \<and> (fst (e_open e (dbName (self s)) (disk s)) = Inl err \<longrightarrow>
      handles (snd (fetchOne e q p s)) = handles s)"
  by (auto simp: fetchOne_def opened_def io_defs Let_def split: prod.splits sum.splits)

lemma executeQuery_self: "self (snd (executeQuery e q p s)) = self s"
  by (auto simp: executeQuery_def io_defs Let_def split: prod.splits sum.splits)

lemma fetchAll_self: "self (snd (fetchAll e q p s)) = self s"
  by (auto simp: fetchAll_def io_defs Let_def split: prod.splits sum.splits)

lemma fetchOne_self: "self (snd (fetchOne e q p s)) = self s"
  by (auto simp: fetchOne_def io_defs Let_def split: prod.splits sum.splits)

lemma reply_of_snd: "snd (reply_of f m s) = snd (m s)"
  by (auto simp: reply_of_def await_def return_io_def split: prod.splits sum.splits)

lemma reply_of_fst: "fst (reply_of f m s) = map_sum (\<lambda>x. x) f (fst (m s))"
  by (auto simp: reply_of_def await_def return_io_def split: prod.splits sum.splits)


lemma executeQuery_rejected:
  assumes "\<forall>d. isl (fst (e_run e (dbName (self s)) q p d))"
  shows "isl (fst (executeQuery e q p s))"
proof (cases "e_open e (dbName (self s)) (disk s)")
  case (Pair r d1)
  show ?thesis
  proof (cases r)
    case (Inl err)
    with Pair show ?thesis
      by (simp add: executeQuery_def io_defs)
  next
    case (Inr u)
    from assms obtain err d2 where "e_run e (dbName (self s)) q p d1 = (Inl err, d2)"
      by (metis isl_def prod.collapse)
    with Pair Inr show ?thesis
      by (simp add: executeQuery_def io_defs Let_def)
  qed
qed

lemma count_join_marks:
  "count_list (join (map (\<lambda>_. ''?'') vs) '', '') CHR ''?'' = length vs"
  by (induction vs rule: induct_list012) simp_all

lemma perform_self: "self (snd (perform e c s)) = self s"
  by (cases c)
     (simp_all add: reply_of_snd executeQuery_self fetchAll_self fetchOne_self
        createTable_def insert_row_def update_def delete_def
        selectAll_def selectWhere_def selectAllOrdered_def)

lemma perform_all_self: "self (perform_all e cs s) = self s"
  by (induction cs arbitrary: s) (simp_all add: perform_self)

lemma reply_of_Inr: "fst (reply_of f m s) = Inr v \<Longrightarrow> \<exists>x. fst (m s) = Inr x"
  by (cases "fst (m s)") (simp_all add: reply_of_fst)

lemma reply_of_Inl: "fst (reply_of f m s) = Inl err \<Longrightarrow> fst (m s) = Inl err"
  by (cases "fst (m s)") (simp_all add: reply_of_fst)

lemmas built_defs = createTable_def insert_row_def update_def delete_def
  selectAll_def selectWhere_def selectAllOrdered_def

lemma perform_closed:
  assumes "fst (perform e c s) = Inr v"
  shows "handles (snd (perform e c s)) = removeAll (opened s) (handles s)"
  using assms
  by (cases c)
     (auto simp: reply_of_snd built_defs executeQuery_handles fetchAll_handles fetchOne_handles
           dest!: reply_of_Inr)

lemma perform_left_open:
  assumes "fst (e_open e (dbName (self s)) (disk s)) = Inr ()"
    and "fst (perform e c s) = Inl err"
  shows "handles (snd (perform e c s)) = opened s # handles s"
  using assms
  by (cases c)
     (auto simp: reply_of_snd built_defs executeQuery_handles fetchAll_handles fetchOne_handles
           dest!: reply_of_Inl)


lemmas demo_defs = demo_engine_def demo_state_def demo_check_def ends_in_empty_list_def
  constructor_def opened_def Let_def

lemma executeQuery_statement_error:
  assumes "e_open e (dbName (self s)) (disk s) = (Inr (), d1)"
    and "fst (e_run e (dbName (self s)) q p d1) = Inl err"
  shows "fst (executeQuery e q p s) = Inl err
    \<and> handles (snd (executeQuery e q p s)) = opened s # handles s"
  using assms
  by (cases "e_run e (dbName (self s)) q p d1")
     (simp add: executeQuery_def io_defs opened_def Let_def)

lemma fetchAll_statement_error:
  assumes "e_open e (dbName (self s)) (disk s) = (Inr (), d1)"
    and "fst (e_all e (dbName (self s)) q p d1) = Inl err"
  shows "fst (fetchAll e q p s) = Inl err
    \<and> handles (snd (fetchAll e q p s)) = opened s # handles s"
  using assms
  by (cases "e_all e (dbName (self s)) q p d1")
     (simp add: fetchAll_def io_defs opened_def Let_def)

lemma fetchOne_statement_error:
  assumes "e_open e (dbName (self s)) (disk s) = (Inr (), d1)"
    and "fst (e_get e (dbName (self s)) q p d1) = Inl err"
  shows "fst (fetchOne e q p s) = Inl err
    \<and> handles (snd (fetchOne e q p s)) = opened s # handles s"
  using assms
  by (cases "e_get e (dbName (self s)) q p d1")
     (simp add: fetchOne_def io_defs opened_def Let_def)

lemma perform_not_opened:
  assumes "fst (e_open e (dbName (self s)) (disk s)) = Inl err"
  shows "handles (snd (perform e c s)) = handles s"
  using assms
  by (cases c)
     (simp_all add: reply_of_snd built_defs executeQuery_handles fetchAll_handles fetchOne_handles)

lemmas lenient_defs = lenient_engine_def lenient_check_def demo_state_def ends_in_empty_list_def
  constructor_def opened_def Let_def

subsection \<open>The claims\<close>

text \<open>
  C4. The three select operations are \<open>fetchAll\<close> on the statement they build:
  \<open>selectAll t\<close> is \<open>fetchAll\<close> on \<open>SELECT * FROM t\<close> with no parameters,
  \<open>selectWhere t c p\<close> is \<open>fetchAll\<close> on \<open>SELECT * FROM t WHERE c\<close> with parameters \<open>p\<close>,
  and \<open>selectAllOrdered t o\<close> is \<open>fetchAll\<close> on \<open>SELECT * FROM t ORDER BY o\<close> with no
  parameters. The equality is between results and between the states reached.
\<close>

theorem select_is_fetchAll:
  "selectAll e t s = fetchAll e (''SELECT * FROM '' @ t) [] s
   \<and> selectWhere e t c p s = fetchAll e (''SELECT * FROM '' @ t @ '' WHERE '' @ c) p s
   \<and> selectAllOrdered e t ob s = fetchAll e (''SELECT * FROM '' @ t @ '' ORDER BY '' @ ob) [] s"
  by (simp add: selectAll_def selectWhere_def selectAllOrdered_def)

text \<open>
  C1 (as amended). For every operation of the facade, the handle opened at the start
  of the call is closed when the call returns successfully: the open handles are then
  those of before, without the one this call opened. There is no release on a failure
  path: when the call fails after its handle was opened, the error is returned and the
  handle is still open, and this is what happens when the executed statement raises an
  error in \<open>executeQuery\<close>, \<open>fetchAll\<close> or \<open>fetchOne\<close>, on which every other operation is
  built.
\<close>

theorem handle_closed_on_success_only:
  "(fst (perform e c s) = Inr v \<longrightarrow>
      handles (snd (perform e c s)) = removeAll (opened s) (handles s)
      \<and> opened s \<notin> set (handles (snd (perform e c s))))
   \<and> (fst (e_open e (dbName (self s)) (disk s)) = Inr () \<longrightarrow> fst (perform e c s) = Inl err \<longrightarrow>
      handles (snd (perform e c s)) = opened s # handles s
      \<and> opened s \<in> set (handles (snd (perform e c s))))
   \<and> (e_open e (dbName (self s)) (disk s) = (Inr (), d1) \<longrightarrow>
      (fst (e_run e (dbName (self s)) q p d1) = Inl err \<longrightarrow>
         fst (executeQuery e q p s) = Inl err
         \<and> handles (snd (executeQuery e q p s)) = opened s # handles s)
      \<and> (fst (e_all e (dbName (self s)) q p d1) = Inl err \<longrightarrow>
         fst (fetchAll e q p s) = Inl err
         \<and> handles (snd (fetchAll e q p s)) = opened s # handles s)
      \<and> (fst (e_get e (dbName (self s)) q p d1) = Inl err \<longrightarrow>
         fst (fetchOne e q p s) = Inl err
         \<and> handles (snd (fetchOne e q p s)) = opened s # handles s))"
  by (simp add: perform_closed perform_left_open executeQuery_statement_error
      fetchAll_statement_error fetchOne_statement_error)

theorem handle_closed_on_success_only_witness:
  "fst (perform demo_engine (Insert ''t'' ''a'' [1]) demo_state) = Inr Nothing
   \<and> handles (snd (perform demo_engine (Insert ''t'' ''a'' [1]) demo_state)) = []
   \<and> fst (e_open demo_engine (dbName (self demo_state)) (disk demo_state)) = Inr ()
   \<and> fst (perform demo_engine (Insert ''t'' ''a'' []) demo_state) = Inl (SqliteError ''syntax error'')
   \<and> handles (snd (perform demo_engine (Insert ''t'' ''a'' []) demo_state))
       = [\<lparr>hid = 0, hfile = ''demo.db''\<rparr>]
   \<and> fst (e_run demo_engine (dbName (self demo_state)) ''DROP TABLE ()'' [] [])
       = Inl (SqliteError ''syntax error'')
   \<and> handles (snd (executeQuery demo_engine ''DROP TABLE ()'' [] demo_state))
       = [\<lparr>hid = 0, hfile = ''demo.db''\<rparr>]
   \<and> fst (e_all demo_engine (dbName (self demo_state)) ''SELECT ()'' [] [])
       = Inl (SqliteError ''syntax error'')
   \<and> handles (snd (fetchAll demo_engine ''SELECT ()'' [] demo_state))
       = [\<lparr>hid = 0, hfile = ''demo.db''\<rparr>]
   \<and> fst (e_get demo_engine (dbName (self demo_state)) ''SELECT ()'' [] [])
       = Inl (SqliteError ''syntax error'')
   \<and> handles (snd (fetchOne demo_engine ''SELECT ()'' [] demo_state))
       = [\<lparr>hid = 0, hfile = ''demo.db''\<rparr>]"
proof -
  have ok: "fst (perform demo_engine (Insert ''t'' ''a'' [1]) demo_state) = Inr Nothing"
    by (simp add: demo_defs reply_of_def insert_row_def insert_query_def placeholders_def
        executeQuery_def io_defs)
  have opens: "fst (e_open demo_engine (dbName (self demo_state)) (disk demo_state)) = Inr ()"
    by (simp add: demo_defs)
  have opened: "e_open demo_engine (dbName (self demo_state)) (disk demo_state) = (Inr (), [])"
    by (simp add: demo_defs)
  have fails: "fst (perform demo_engine (Insert ''t'' ''a'' []) demo_state)
      = Inl (SqliteError ''syntax error'')"
    by (simp add: demo_defs reply_of_def insert_row_def insert_query_def placeholders_def
        executeQuery_def io_defs)
  have run: "fst (e_run demo_engine (dbName (self demo_state)) ''DROP TABLE ()'' [] [])
      = Inl (SqliteError ''syntax error'')"
    by (simp add: demo_defs)
  have all: "fst (e_all demo_engine (dbName (self demo_state)) ''SELECT ()'' [] [])
      = Inl (SqliteError ''syntax error'')"
    by (simp add: demo_defs)
  have get: "fst (e_get demo_engine (dbName (self demo_state)) ''SELECT ()'' [] [])
      = Inl (SqliteError ''syntax error'')"
    by (simp add: demo_defs)
  from handle_closed_on_success_only [of demo_engine "Insert ''t'' ''a'' [1]" demo_state Nothing] ok
  have closed: "handles (snd (perform demo_engine (Insert ''t'' ''a'' [1]) demo_state))
      = removeAll (opened demo_state) (handles demo_state)"
    by blast
  from handle_closed_on_success_only
    [of demo_engine "Insert ''t'' ''a'' []" demo_state _ "SqliteError ''syntax error''"] opens fails
  have leaked: "handles (snd (perform demo_engine (Insert ''t'' ''a'' []) demo_state))
      = opened demo_state # handles demo_state"
    by blast
  from handle_closed_on_success_only
    [of demo_engine _ demo_state _ "SqliteError ''syntax error''" "[]" "''DROP TABLE ()''" "[]"]
    opened run
  have leaked_run: "handles (snd (executeQuery demo_engine ''DROP TABLE ()'' [] demo_state))
      = opened demo_state # handles demo_state"
    by blast
  from handle_closed_on_success_only
    [of demo_engine _ demo_state _ "SqliteError ''syntax error''" "[]" "''SELECT ()''" "[]"]
    opened all
  have leaked_all: "handles (snd (fetchAll demo_engine ''SELECT ()'' [] demo_state))
      = opened demo_state # handles demo_state"
    by blast
  from handle_closed_on_success_only
    [of demo_engine _ demo_state _ "SqliteError ''syntax error''" "[]" "''SELECT ()''" "[]"]
    opened get
  have leaked_get: "handles (snd (fetchOne demo_engine ''SELECT ()'' [] demo_state))
      = opened demo_state # handles demo_state"
    by blast
  show ?thesis
    using ok opens fails closed leaked run all get leaked_run leaked_all leaked_get
    by (simp add: demo_defs)
qed

text \<open>
  C1 as stated fails: on the small engine, \<open>executeQuery\<close> with a statement the engine
  rejects returns the error, and the handle it opened (number 0, on demo.db) is open
  after the call, where no handle was open before.
\<close>

theorem handle_leak_counterexample:
  "handles demo_state = []
   \<and> fst (executeQuery demo_engine ''INSERT INTO t (a) VALUES ()'' [] demo_state)
       = Inl (SqliteError ''syntax error'')
   \<and> handles (snd (executeQuery demo_engine ''INSERT INTO t (a) VALUES ()'' [] demo_state))
       = [\<lparr>hid = 0, hfile = ''demo.db''\<rparr>]"
  by (simp add: demo_defs executeQuery_def io_defs)

text \<open>
  C9 (as amended). The facade object has one field, the file name given to the
  constructor. No operation changes the object, whether the call succeeds or fails, so
  after any sequence of calls the object, and with it the file name, is the one
  constructed. Outside the object, the handles open in the process are as before after
  a call that succeeds (its own handle, new, is closed) and after a call whose open
  fails; a call that fails after its handle was opened leaves that handle open.
\<close>

theorem facade_object_unchanged:
  "dbName (constructor name) = name
   \<and> self (snd (perform e c s)) = self s
   \<and> self (perform_all e cs s) = self s
   \<and> (fst (perform e c s) = Inr v \<longrightarrow> opened s \<notin> set (handles s) \<longrightarrow>
        handles (snd (perform e c s)) = handles s)
   \<and> (fst (e_open e (dbName (self s)) (disk s)) = Inl err \<longrightarrow>
        handles (snd (perform e c s)) = handles s)
   \<and> (fst (e_open e (dbName (self s)) (disk s)) = Inr () \<longrightarrow> fst (perform e c s) = Inl err \<longrightarrow>
        handles (snd (perform e c s)) = opened s # handles s)"
  by (simp add: constructor_def perform_self perform_all_self perform_closed perform_not_opened
      perform_left_open)

theorem facade_object_unchanged_witness:
  "fst (perform demo_engine (CreateTable ''t'' ''a INTEGER'') demo_state) = Inr Nothing
   \<and> opened demo_state \<notin> set (handles demo_state)
   \<and> handles (snd (perform demo_engine (CreateTable ''t'' ''a INTEGER'') demo_state)) = []
   \<and> fst (e_open (demo_engine\<lparr>e_open := (\<lambda>f d. (Inl (SqliteError ''unable to open''), d))\<rparr>)
          (dbName (self demo_state)) (disk demo_state)) = Inl (SqliteError ''unable to open'')
   \<and> handles (snd (perform
          (demo_engine\<lparr>e_open := (\<lambda>f d. (Inl (SqliteError ''unable to open''), d))\<rparr>)
          (SelectAll ''t'') demo_state)) = []
   \<and> fst (e_open demo_engine (dbName (self demo_state)) (disk demo_state)) = Inr ()
   \<and> fst (perform demo_engine (Delete ''t'' ''a = ?'' [1, 2]) demo_state)
       = Inl (SqliteError ''wrong number of values'')
   \<and> handles (snd (perform demo_engine (Delete ''t'' ''a = ?'' [1, 2]) demo_state))
       = [\<lparr>hid = 0, hfile = ''demo.db''\<rparr>]"
proof -
  have ok: "fst (perform demo_engine (CreateTable ''t'' ''a INTEGER'') demo_state) = Inr Nothing"
    by (simp add: reply_of_def createTable_def executeQuery_def io_defs demo_defs)
  have fresh: "opened demo_state \<notin> set (handles demo_state)"
    by (simp add: demo_defs)
  have no_open: "fst (e_open (demo_engine\<lparr>e_open := (\<lambda>f d. (Inl (SqliteError ''unable to open''), d))\<rparr>)
          (dbName (self demo_state)) (disk demo_state)) = Inl (SqliteError ''unable to open'')"
    by simp
  have opens: "fst (e_open demo_engine (dbName (self demo_state)) (disk demo_state)) = Inr ()"
    by (simp add: demo_defs)
  have fails: "fst (perform demo_engine (Delete ''t'' ''a = ?'' [1, 2]) demo_state)
       = Inl (SqliteError ''wrong number of values'')"
    by (simp add: reply_of_def delete_def executeQuery_def io_defs demo_defs)
  from facade_object_unchanged
    [of _ demo_engine "CreateTable ''t'' ''a INTEGER''" demo_state _ Nothing] ok fresh
  have same: "handles (snd (perform demo_engine (CreateTable ''t'' ''a INTEGER'') demo_state))
      = handles demo_state"
    by blast
  from facade_object_unchanged
    [of _ "demo_engine\<lparr>e_open := (\<lambda>f d. (Inl (SqliteError ''unable to open''), d))\<rparr>"
        "SelectAll ''t''" demo_state _ _ "SqliteError ''unable to open''"] no_open
  have unopened: "handles (snd (perform
          (demo_engine\<lparr>e_open := (\<lambda>f d. (Inl (SqliteError ''unable to open''), d))\<rparr>)
          (SelectAll ''t'') demo_state)) = handles demo_state"
    by blast
  from facade_object_unchanged
    [of _ demo_engine "Delete ''t'' ''a = ?'' [1, 2]" demo_state _ _
        "SqliteError ''wrong number of values''"] opens fails
  have left: "handles (snd (perform demo_engine (Delete ''t'' ''a = ?'' [1, 2]) demo_state))
      = opened demo_state # handles demo_state"
    by blast
  show ?thesis
    using ok fresh no_open opens fails same unopened left
    by (simp add: demo_defs)
qed

text \<open>
  C9 as stated fails in its last clause: a failed call changes state of the process
  other than the facade object. On the first small engine, \<open>insert\<close> with no values is
  rejected, and the handle the call opened is open afterwards, where none was before.
\<close>

theorem facade_object_unchanged_counterexample:
  "handles demo_state = []
   \<and> fst (perform demo_engine (Insert ''users'' ''name'' []) demo_state)
       = Inl (SqliteError ''syntax error'')
   \<and> handles (snd (perform demo_engine (Insert ''users'' ''name'' []) demo_state))
       = [\<lparr>hid = 0, hfile = ''demo.db''\<rparr>]"
  by (simp add: reply_of_def insert_row_def insert_query_def placeholders_def executeQuery_def
      io_defs demo_defs)

text \<open>
  C5. When the engine opens the file, finds no row for the query (\<open>get\<close> yields no row,
  \<open>all\<close> yields the empty list) and closes the file, \<open>fetchOne\<close> returns the absent
  row as a value, not an error, and \<open>fetchAll\<close> returns the empty list.
\<close>

theorem fetch_no_rows:
  "e_open e (dbName (self s)) (disk s) = (Inr (), d1) \<longrightarrow>
     (e_get e (dbName (self s)) q p d1 = (Inr None, d2)
        \<and> e_close e (dbName (self s)) d2 = (Inr (), d3)
        \<longrightarrow> fst (fetchOne e q p s) = Inr None)
     \<and> (e_all e (dbName (self s)) q p d1 = (Inr [], d2)
        \<and> e_close e (dbName (self s)) d2 = (Inr (), d3)
        \<longrightarrow> fst (fetchAll e q p s) = Inr [])"
  by (auto simp: fetchAll_def fetchOne_def io_defs Let_def)

theorem fetch_no_rows_witness:
  "e_open demo_engine (dbName (self demo_state)) (disk demo_state) = (Inr (), [])
   \<and> e_get demo_engine (dbName (self demo_state)) ''SELECT * FROM t WHERE a = ?'' [7] [] = (Inr None, [])
   \<and> e_all demo_engine (dbName (self demo_state)) ''SELECT * FROM t WHERE a = ?'' [7] [] = (Inr [], [])
   \<and> e_close demo_engine (dbName (self demo_state)) [] = (Inr (), [])
   \<and> fst (fetchOne demo_engine ''SELECT * FROM t WHERE a = ?'' [7] demo_state) = Inr None
   \<and> fst (fetchAll demo_engine ''SELECT * FROM t WHERE a = ?'' [7] demo_state) = Inr []"
proof -
  have opened: "e_open demo_engine (dbName (self demo_state)) (disk demo_state) = (Inr (), [])"
    and get: "e_get demo_engine (dbName (self demo_state)) ''SELECT * FROM t WHERE a = ?'' [7] []
      = (Inr None, [])"
    and all: "e_all demo_engine (dbName (self demo_state)) ''SELECT * FROM t WHERE a = ?'' [7] []
      = (Inr [], [])"
    and closed: "e_close demo_engine (dbName (self demo_state)) [] = (Inr (), [])"
    by (simp_all add: demo_defs)
  from fetch_no_rows [of demo_engine demo_state "[]" "''SELECT * FROM t WHERE a = ?''" "[7]" "[]" "[]"]
    opened get all closed
  show ?thesis by blast
qed

text \<open>
  C2 (as amended). For every table name, column text and value list, the placeholder
  text that \<open>insert\<close> builds is one \<open>?\<close> per value, joined by a comma and a space, so it
  holds exactly as many \<open>?\<close> as there are values. The statement sent is
  \<open>INSERT INTO t (c) VALUES (placeholders)\<close> with the values as its parameters; it holds
  these \<open>?\<close> and those already in the table name and the column text. The facade
  compares no counts: the operation is \<open>executeQuery\<close> on this statement and these
  values, and fails exactly when that fails.
\<close>

theorem insert_placeholders:
  "placeholders vs = join (replicate (length vs) ''?'') '', ''
   \<and> count_list (placeholders vs) CHR ''?'' = length vs
   \<and> insert_row e t c vs s
       = executeQuery e (''INSERT INTO '' @ t @ '' ('' @ c @ '') VALUES ('' @ placeholders vs @ '')'') vs s
   \<and> count_list (''INSERT INTO '' @ t @ '' ('' @ c @ '') VALUES ('' @ placeholders vs @ '')'') CHR ''?''
       = count_list t CHR ''?'' + count_list c CHR ''?'' + length vs"
proof -
  have "map (\<lambda>_. ''?'') vs = replicate (length vs) ''?''"
    by (simp add: map_replicate_const)
  then have shape: "placeholders vs = join (replicate (length vs) ''?'') '', ''"
    by (simp add: placeholders_def)
  have marks: "count_list (placeholders vs) CHR ''?'' = length vs"
    by (simp add: placeholders_def count_join_marks)
  have built: "insert_row e t c vs s
      = executeQuery e (''INSERT INTO '' @ t @ '' ('' @ c @ '') VALUES ('' @ placeholders vs @ '')'') vs s"
    by (simp add: insert_row_def insert_query_def)
  from shape marks built show ?thesis
    by simp
qed

text \<open>
  C2 as stated fails: with the column text \<open>a, b) VALUES (?, ?) --\<close> and one value, the
  statement the engine executes (the text before the comment) has two placeholders for
  one value, and on the second small engine, which like SQLite takes a missing value as
  NULL, the operation succeeds.
\<close>

theorem insert_placeholders_counterexample:
  "insert_query ''t'' ''a, b) VALUES (?, ?) --'' [5::int]
     = ''INSERT INTO t (a, b) VALUES (?, ?) --) VALUES (?)''
   \<and> count_list (strip_comment (insert_query ''t'' ''a, b) VALUES (?, ?) --'' [5::int])) CHR ''?'' = 2
   \<and> length [5::int] = 1
   \<and> fst (insert_row lenient_engine ''t'' ''a, b) VALUES (?, ?) --'' [5] demo_state) = Inr ()"
  by (simp add: insert_row_def insert_query_def placeholders_def executeQuery_def io_defs
      lenient_defs)



text \<open>
  C10 (as amended). For every table name and column text, \<open>insert\<close> with no values
  builds an empty placeholder text, hence the statement \<open>INSERT INTO t (c) VALUES ()\<close>
  with no parameters; whenever the engine rejects this statement, the operation fails.
\<close>

theorem insert_no_values:
  "placeholders ([] :: 'v list) = []
   \<and> insert_row e t c ([] :: 'v list) s
       = executeQuery e (''INSERT INTO '' @ t @ '' ('' @ c @ '') VALUES ()'') [] s
   \<and> ((\<forall>d. isl (fst (e_run e (dbName (self s))
               (''INSERT INTO '' @ t @ '' ('' @ c @ '') VALUES ()'') ([] :: 'v list) d)))
       \<longrightarrow> isl (fst (insert_row e t c [] s)))"
proof -
  have built: "insert_row e t c ([] :: 'v list) s
      = executeQuery e (''INSERT INTO '' @ t @ '' ('' @ c @ '') VALUES ()'') [] s"
    by (simp add: insert_row_def insert_query_def placeholders_def)
  then show ?thesis
    by (simp add: placeholders_def executeQuery_rejected)
qed

theorem insert_no_values_witness:
  "(\<forall>d. isl (fst (e_run demo_engine (dbName (self demo_state))
        (''INSERT INTO '' @ ''users'' @ '' ('' @ ''name, email'' @ '') VALUES ()'') [] d)))
   \<and> isl (fst (insert_row demo_engine ''users'' ''name, email'' [] demo_state))"
proof -
  have rejected: "\<forall>d. isl (fst (e_run demo_engine (dbName (self demo_state))
        (''INSERT INTO '' @ ''users'' @ '' ('' @ ''name, email'' @ '') VALUES ()'') [] d))"
    by (simp add: demo_defs)
  with insert_no_values [of demo_engine "''users''" "''name, email''" demo_state]
  show ?thesis by blast
qed

text \<open>
  C10 as stated fails: \<open>insert\<close> with no values does not always fail. With the column
  text \<open>a) VALUES (1) --\<close> the text \<open>) VALUES ()\<close> that \<open>insert\<close> appends is a comment,
  and the second small engine, which rejects the plain statement with an empty list,
  accepts this one.
\<close>

theorem insert_no_values_counterexample:
  "insert_query ''t'' ''a) VALUES (1) --'' ([] :: int list)
     = ''INSERT INTO t (a) VALUES (1) --) VALUES ()''
   \<and> fst (insert_row lenient_engine ''t'' ''a) VALUES (1) --'' [] demo_state) = Inr ()
   \<and> fst (insert_row lenient_engine ''t'' ''a'' [] demo_state) = Inl (SqliteError ''syntax error'')"
  by (simp add: insert_row_def insert_query_def placeholders_def executeQuery_def io_defs
      lenient_defs)

end
